theory Spec2Isabelle
  imports Complex_Main "HOL-Library.Word"
begin

section \<open>Script values\<close>

text \<open>
  The module \<^verbatim>\<open>validation.go\<close> is a set of Go functions registered in a gopher-lua
  interpreter. A script value (\<^verbatim>\<open>lua.LValue\<close>) is one of nine kinds; \<^verbatim>\<open>LNumber\<close> is a Go
  \<^verbatim>\<open>float64\<close>, \<^verbatim>\<open>LString\<close> is a Go string (a sequence of bytes).
\<close>

text \<open>
  A \<^verbatim>\<open>float64\<close>: a finite value (the set of reals contains every finite double, and the
  comparison of two finite doubles is the comparison of the reals they denote; the two
  zeros compare equal), the two infinities, or not-a-number.
\<close>

datatype float64 = Fin real | PosInf | NegInf | NaN

text \<open>Go's \<^verbatim>\<open><=\<close> and \<^verbatim>\<open>>=\<close> on \<^verbatim>\<open>float64\<close>: every comparison with NaN is false.\<close>

fun f64_le :: "float64 \<Rightarrow> float64 \<Rightarrow> bool" where
  "f64_le NaN y = False"
| "f64_le x NaN = False"
| "f64_le NegInf y = True"
| "f64_le x PosInf = True"
| "f64_le (Fin a) (Fin b) = (a \<le> b)"
| "f64_le x y = False"

definition f64_ge :: "float64 \<Rightarrow> float64 \<Rightarrow> bool" where
  "f64_ge x y = f64_le y x"

text \<open>The type tags of gopher-lua (\<^verbatim>\<open>LValueType\<close>).\<close>

datatype LValueType =
  LTNil | LTBool | LTNumber | LTString | LTFunction | LTUserData | LTThread | LTTable
  | LTChannel

text \<open>
  The values. A table is held by its key/value entries, in the order in which
  \<^verbatim>\<open>ForEach\<close> visits them; functions, userdata, threads and channels are opaque to the
  module and are told apart by an identity only.
\<close>

datatype LValue =
    LNil
  | LBool bool
  | LNumber float64
  | LString string
  | LFunction nat
  | LUserData nat
  | LThread nat
  | LTable "(LValue \<times> LValue) list"
  | LChannel nat

text \<open>\<^verbatim>\<open>LValue.Type()\<close>: the runtime type tag of a value.\<close>

fun Type :: "LValue \<Rightarrow> LValueType" where
  "Type LNil = LTNil"
| "Type (LBool b) = LTBool"
| "Type (LNumber n) = LTNumber"
| "Type (LString s) = LTString"
| "Type (LFunction f) = LTFunction"
| "Type (LUserData u) = LTUserData"
| "Type (LThread t) = LTThread"
| "Type (LTable t) = LTTable"
| "Type (LChannel c) = LTChannel"

text \<open>
  \<^verbatim>\<open>LTable.ForEach\<close> calls the callback once for every entry of the table; the callback
  of the source updates a captured variable, which is the threaded state here.
\<close>

fun ForEach :: "(LValue \<times> LValue) list \<Rightarrow> (LValue \<Rightarrow> LValue \<Rightarrow> 's \<Rightarrow> 's) \<Rightarrow> 's \<Rightarrow> 's" where
  "ForEach [] cb s = s"
| "ForEach ((k, v) # es) cb s = ForEach es cb (cb k v s)"

section \<open>The interpreter state seen by a Go function\<close>

text \<open>
  A Go function called from a script receives the interpreter state: its own call frame,
  whose registers \<open>1..GetTop\<close> hold the arguments, and everything that outlives the call
  (globals, registry), held in \<open>Env\<close>. It pushes its results on the frame and returns
  their number; an argument check that fails raises a script error, which ends the call.
\<close>

record LState =
  stack :: "LValue list"
  Env :: "string \<rightharpoonup> LValue"

datatype lua_error =
    ArgError nat string
  | TypeError nat LValueType LValueType

type_synonym LGFunction = "LState \<Rightarrow> lua_error + (nat \<times> LState)"

definition GetTop :: "LState \<Rightarrow> nat" where
  "GetTop L = length (stack L)"

text \<open>\<^verbatim>\<open>L.Get(n)\<close> for a positive index: a register beyond the top reads as nil.\<close>

definition Get :: "LState \<Rightarrow> nat \<Rightarrow> LValue" where
  "Get L n = (if 1 \<le> n \<and> n \<le> GetTop L then stack L ! (n - 1) else LNil)"

definition Push :: "LState \<Rightarrow> LValue \<Rightarrow> LState" where
  "Push L v = L\<lparr>stack := stack L @ [v]\<rparr>"

text \<open>
  The external collaborators of the module, taken as they are: the address parser of
  \<^verbatim>\<open>net/mail\<close>, the regular-expression engine, the authority parser of \<^verbatim>\<open>net/url\<close>, the
  number formatting and number parsing of the interpreter, and what the platform makes of
  a float-to-int conversion whose result does not fit (the Go specification leaves it to
  the implementation). An error result is the error's message; \<open>None\<close> is Go's \<^verbatim>\<open>nil\<close>.
\<close>

typedecl Regexp

record GoLib =
  mail_ParseAddress :: "string \<Rightarrow> string option"
  regexp_Compile :: "string \<Rightarrow> string + Regexp"
  regexp_MatchString :: "Regexp \<Rightarrow> string \<Rightarrow> bool"
  url_parseAuthority :: "string \<Rightarrow> string option"
  LNumber_String :: "float64 \<Rightarrow> string"
  parseNumber :: "string \<Rightarrow> float64 option"
  int_conv_overflow :: "float64 \<Rightarrow> 64 word"

subsection \<open>Argument checks (gopher-lua, auxlib.go)\<close>

text \<open>\<^verbatim>\<open>CheckAny(n)\<close> raises when the call has fewer than \<open>n\<close> arguments.\<close>

definition CheckAny :: "LState \<Rightarrow> nat \<Rightarrow> lua_error + LValue" where
  "CheckAny L n =
     (if n > GetTop L then Inl (ArgError n ''value expected'') else Inr (Get L n))"

text \<open>
  \<^verbatim>\<open>CheckString(n)\<close> accepts a string and, through \<^verbatim>\<open>LVCanConvToString\<close>, a number, which
  it converts to its text; any other value raises a type error.
\<close>

definition CheckString :: "GoLib \<Rightarrow> LState \<Rightarrow> nat \<Rightarrow> lua_error + string" where
  "CheckString lib L n =
     (case Get L n of
        LString lv \<Rightarrow> Inr lv
      | LNumber nm \<Rightarrow> Inr (LNumber_String lib nm)
      | v \<Rightarrow> Inl (TypeError n LTString (Type v)))"

text \<open>
  Go's conversion \<^verbatim>\<open>int(x)\<close> of a \<^verbatim>\<open>float64\<close>, for a 64-bit \<^verbatim>\<open>int\<close>: the fraction is
  discarded (truncation towards zero); when the result does not fit, the value is the
  platform's.
\<close>

definition int_of_float64 :: "GoLib \<Rightarrow> float64 \<Rightarrow> int" where
  "int_of_float64 lib x =
     (case x of
        Fin r \<Rightarrow>
          (let t = (if 0 \<le> r then \<lfloor>r\<rfloor> else \<lceil>r\<rceil>)
           in if - (2 ^ 63) \<le> t \<and> t < 2 ^ 63 then t else sint (int_conv_overflow lib x))
      | _ \<Rightarrow> sint (int_conv_overflow lib x))"

text \<open>\<^verbatim>\<open>CheckInt(n)\<close> accepts a number only, and converts it with \<^verbatim>\<open>int(...)\<close>.\<close>

definition CheckInt :: "GoLib \<Rightarrow> LState \<Rightarrow> nat \<Rightarrow> lua_error + int" where
  "CheckInt lib L n =
     (case Get L n of
        LNumber intv \<Rightarrow> Inr (int_of_float64 lib intv)
      | v \<Rightarrow> Inl (TypeError n LTNumber (Type v)))"

text \<open>
  \<^verbatim>\<open>CheckNumber(n)\<close> accepts a number and a string that \<^verbatim>\<open>parseNumber\<close> reads as a
  number; a release of the interpreter that does not convert strings here is the case of a
  \<open>parseNumber\<close> that reads nothing.
\<close>

definition CheckNumber :: "GoLib \<Rightarrow> LState \<Rightarrow> nat \<Rightarrow> lua_error + float64" where
  "CheckNumber lib L n =
     (case Get L n of
        LNumber lv \<Rightarrow> Inr lv
      | LString lv \<Rightarrow>
          (case parseNumber lib lv of
             Some num \<Rightarrow> Inr num
           | None \<Rightarrow> Inl (TypeError n LTNumber LTString))
      | v \<Rightarrow> Inl (TypeError n LTNumber (Type v)))"

text \<open>
  A call from a script: the function runs on a fresh frame holding the arguments; the
  values it returns are the topmost \<open>n\<close> registers, \<open>n\<close> being the number it returned.
  The call gives back the results and the environment it leaves behind.
\<close>

definition call ::
  "LGFunction \<Rightarrow> (string \<rightharpoonup> LValue) \<Rightarrow> LValue list \<Rightarrow> lua_error + (LValue list \<times> (string \<rightharpoonup> LValue))"
where
  "call f env args =
     (case f \<lparr>stack = args, Env = env\<rparr> of
        Inl e \<Rightarrow> Inl e
      | Inr (n, L') \<Rightarrow> Inr (drop (length (stack L') - n) (stack L'), Env L'))"

text \<open>
  A script that binds more variables than the call returned values reads nil in the
  others: the \<open>k\<close>-th result slot of a list of results.
\<close>

definition result_slot :: "LValue list \<Rightarrow> nat \<Rightarrow> LValue" where
  "result_slot rs k = (if 1 \<le> k \<and> k \<le> length rs then rs ! (k - 1) else LNil)"

section \<open>The URI parser (Go, net/url)\<close>

text \<open>
  \<^verbatim>\<open>url.ParseRequestURI\<close> is \<^verbatim>\<open>parse(rawURL, true)\<close>. The module only asks whether the
  error is nil, so the functions below return the error (\<open>None\<close> for nil) and leave the
  fields of the parsed URL out. The parser of the authority part is a collaborator.
\<close>

definition byte :: "char \<Rightarrow> nat" where
  "byte c = of_char c"

definition stringContainsCTLByte :: "string \<Rightarrow> bool" where
  "stringContainsCTLByte s = list_ex (\<lambda>b. byte b < 0x20 \<or> byte b = 0x7f) s"

definition HasPrefix :: "string \<Rightarrow> string \<Rightarrow> bool" where
  "HasPrefix s pre = (take (length pre) s = pre)"

definition is_letter :: "char \<Rightarrow> bool" where
  "is_letter c = (byte CHR ''a'' \<le> byte c \<and> byte c \<le> byte CHR ''z''
     \<or> byte CHR ''A'' \<le> byte c \<and> byte c \<le> byte CHR ''Z'')"

definition is_digit :: "char \<Rightarrow> bool" where
  "is_digit c = (byte CHR ''0'' \<le> byte c \<and> byte c \<le> byte CHR ''9'')"

definition ishex :: "char \<Rightarrow> bool" where
  "ishex c = (is_digit c
     \<or> byte CHR ''a'' \<le> byte c \<and> byte c \<le> byte CHR ''f''
     \<or> byte CHR ''A'' \<le> byte c \<and> byte c \<le> byte CHR ''F'')"

text \<open>
  \<^verbatim>\<open>getScheme\<close>: the loop over the bytes of \<open>rawURL\<close>, \<open>i\<close> being the index of the byte
  \<open>c\<close> at the head of the remaining bytes. The result is the error, or the scheme and
  the rest.
\<close>

fun getScheme_loop :: "string \<Rightarrow> nat \<Rightarrow> string \<Rightarrow> string + (string \<times> string)" where
  "getScheme_loop rawURL i [] = Inr ([], rawURL)"
| "getScheme_loop rawURL i (c # cs) =
     (if is_letter c then getScheme_loop rawURL (i + 1) cs
      else if is_digit c \<or> c = CHR ''+'' \<or> c = CHR ''-'' \<or> c = CHR ''.'' then
        (if i = 0 then Inr ([], rawURL) else getScheme_loop rawURL (i + 1) cs)
      else if c = CHR '':'' then
        (if i = 0 then Inl ''missing protocol scheme''
         else Inr (take i rawURL, drop (i + 1) rawURL))
      else Inr ([], rawURL))"

definition getScheme :: "string \<Rightarrow> string + (string \<times> string)" where
  "getScheme rawURL = getScheme_loop rawURL 0 rawURL"

text \<open>
  The query is split off: a single trailing \<^verbatim>\<open>?\<close> is dropped, otherwise the rest is cut
  at the first \<^verbatim>\<open>?\<close> (\<^verbatim>\<open>strings.Cut\<close>).
\<close>

definition cut_query :: "string \<Rightarrow> string" where
  "cut_query rest =
     (if rest \<noteq> [] \<and> last rest = CHR ''?'' \<and> count_list rest CHR ''?'' = 1
      then butlast rest
      else takeWhile (\<lambda>c. c \<noteq> CHR ''?'') rest)"

text \<open>
  \<^verbatim>\<open>unescape(p, encodePath)\<close> fails only on a \<^verbatim>\<open>%\<close> that is not followed by two hex
  digits; \<^verbatim>\<open>setPath\<close> fails when it does.
\<close>

fun unescape_path_ok :: "string \<Rightarrow> bool" where
  "unescape_path_ok [] = True"
| "unescape_path_ok (c # cs) =
     (if c = CHR ''%'' then
        (case cs of
           h1 # h2 # cs' \<Rightarrow> ishex h1 \<and> ishex h2 \<and> unescape_path_ok cs'
         | _ \<Rightarrow> False)
      else unescape_path_ok cs)"

definition setPath :: "string \<Rightarrow> string option" where
  "setPath p = (if unescape_path_ok p then None else Some ''invalid URL escape'')"

definition parse :: "GoLib \<Rightarrow> string \<Rightarrow> bool \<Rightarrow> string option" where
  "parse lib rawURL viaRequest =
     (if stringContainsCTLByte rawURL then Some ''net/url: invalid control character in URL''
      else if rawURL = [] \<and> viaRequest then Some ''empty url''
      else if rawURL = ''*'' then None
      else
        (case getScheme rawURL of
           Inl err \<Rightarrow> Some err
         | Inr (scheme, rest0) \<Rightarrow>
             (let rest = cut_query rest0 in
              if \<not> HasPrefix rest ''/'' \<and> scheme \<noteq> [] then None
              else if \<not> HasPrefix rest ''/'' \<and> viaRequest then Some ''invalid URI for request''
              else if \<not> HasPrefix rest ''/''
                   \<and> list_ex (\<lambda>c. c = CHR '':'') (takeWhile (\<lambda>c. c \<noteq> CHR ''/'') rest)
              then Some ''first path segment in URL cannot contain colon''
              else if (scheme \<noteq> [] \<or> \<not> viaRequest \<and> \<not> HasPrefix rest ''///'')
                   \<and> HasPrefix rest ''//''
              then
                (let authority = takeWhile (\<lambda>c. c \<noteq> CHR ''/'') (drop 2 rest);
                     rest' = dropWhile (\<lambda>c. c \<noteq> CHR ''/'') (drop 2 rest)
                 in case url_parseAuthority lib authority of
                      Some err \<Rightarrow> Some err
                    | None \<Rightarrow> setPath rest')
              else setPath rest)))"

definition ParseRequestURI :: "GoLib \<Rightarrow> string \<Rightarrow> string option" where
  "ParseRequestURI lib rawURL = parse lib rawURL True"

section \<open>The validation module (validation.go)\<close>

definition isEmpty :: LGFunction where
  "isEmpty L =
     (case CheckAny L 1 of
        Inl e \<Rightarrow> Inl e
      | Inr value \<Rightarrow>
          if value = LNil then Inr (1, Push L (LBool True))
          else
            (case value of
               LString str \<Rightarrow> Inr (1, Push L (LBool (str = [])))
             | LTable tbl \<Rightarrow>
                 (let count = ForEach tbl (\<lambda>_ _ c. c + 1) (0::int)
                  in Inr (1, Push L (LBool (count = 0))))
             | _ \<Rightarrow> Inr (1, Push L (LBool False))))"

definition isString :: LGFunction where
  "isString L =
     (case CheckAny L 1 of
        Inl e \<Rightarrow> Inl e
      | Inr value \<Rightarrow>
          (let ok = (case value of LString _ \<Rightarrow> True | _ \<Rightarrow> False)
           in Inr (1, Push L (LBool ok))))"

definition isNumber :: LGFunction where
  "isNumber L =
     (case CheckAny L 1 of
        Inl e \<Rightarrow> Inl e
      | Inr value \<Rightarrow>
          (let ok = (case value of LNumber _ \<Rightarrow> True | _ \<Rightarrow> False)
           in Inr (1, Push L (LBool ok))))"

definition isTable :: LGFunction where
  "isTable L =
     (case CheckAny L 1 of
        Inl e \<Rightarrow> Inl e
      | Inr value \<Rightarrow>
          (let ok = (case value of LTable _ \<Rightarrow> True | _ \<Rightarrow> False)
           in Inr (1, Push L (LBool ok))))"

definition isBoolean :: LGFunction where
  "isBoolean L =
     (case CheckAny L 1 of
        Inl e \<Rightarrow> Inl e
      | Inr value \<Rightarrow>
          (let ok = (case value of LBool _ \<Rightarrow> True | _ \<Rightarrow> False)
           in Inr (1, Push L (LBool ok))))"

definition isNil :: LGFunction where
  "isNil L =
     (case CheckAny L 1 of
        Inl e \<Rightarrow> Inl e
      | Inr value \<Rightarrow> Inr (1, Push L (LBool (value = LNil))))"

definition validateEmail :: "GoLib \<Rightarrow> LGFunction" where
  "validateEmail lib L =
     (case CheckString lib L 1 of
        Inl e \<Rightarrow> Inl e
      | Inr email \<Rightarrow>
          (let err = mail_ParseAddress lib email
           in Inr (1, Push L (LBool (err = None)))))"

definition validateURL :: "GoLib \<Rightarrow> LGFunction" where
  "validateURL lib L =
     (case CheckString lib L 1 of
        Inl e \<Rightarrow> Inl e
      | Inr urlStr \<Rightarrow>
          (let err = ParseRequestURI lib urlStr
           in Inr (1, Push L (LBool (err = None)))))"

definition validateRegex :: "GoLib \<Rightarrow> LGFunction" where
  "validateRegex lib L =
     (case CheckString lib L 1 of
        Inl e \<Rightarrow> Inl e
      | Inr str \<Rightarrow>
          (case CheckString lib L 2 of
             Inl e \<Rightarrow> Inl e
           | Inr pattern \<Rightarrow>
               (case regexp_Compile lib pattern of
                  Inl err \<Rightarrow> Inr (2, Push (Push L (LBool False)) (LString err))
                | Inr re \<Rightarrow> Inr (1, Push L (LBool (regexp_MatchString lib re str))))))"

text \<open>
  \<^verbatim>\<open>len(str)\<close> is the number of bytes of the string. The source's variables \<^verbatim>\<open>min\<close> and
  \<^verbatim>\<open>max\<close> are \<open>minv\<close> and \<open>maxv\<close> here.
\<close>

definition minLength :: "GoLib \<Rightarrow> LGFunction" where
  "minLength lib L =
     (case CheckString lib L 1 of
        Inl e \<Rightarrow> Inl e
      | Inr str \<Rightarrow>
          (case CheckInt lib L 2 of
             Inl e \<Rightarrow> Inl e
           | Inr minv \<Rightarrow> Inr (1, Push L (LBool (int (length str) \<ge> minv)))))"

definition maxLength :: "GoLib \<Rightarrow> LGFunction" where
  "maxLength lib L =
     (case CheckString lib L 1 of
        Inl e \<Rightarrow> Inl e
      | Inr str \<Rightarrow>
          (case CheckInt lib L 2 of
             Inl e \<Rightarrow> Inl e
           | Inr maxv \<Rightarrow> Inr (1, Push L (LBool (int (length str) \<le> maxv)))))"

definition inRange :: "GoLib \<Rightarrow> LGFunction" where
  "inRange lib L =
     (case CheckNumber lib L 1 of
        Inl e \<Rightarrow> Inl e
      | Inr num \<Rightarrow>
          (case CheckNumber lib L 2 of
             Inl e \<Rightarrow> Inl e
           | Inr minv \<Rightarrow>
               (case CheckNumber lib L 3 of
                  Inl e \<Rightarrow> Inl e
                | Inr maxv \<Rightarrow> Inr (1, Push L (LBool (f64_ge num minv \<and> f64_le num maxv))))))"

text \<open>The table of exported functions, by name.\<close>

definition exports :: "GoLib \<Rightarrow> (string \<times> LGFunction) list" where
  "exports lib =
     [(''is_empty'', isEmpty),
      (''is_string'', isString),
      (''is_number'', isNumber),
      (''is_table'', isTable),
      (''is_boolean'', isBoolean),
      (''is_nil'', isNil),
      (''validate_email'', validateEmail lib),
      (''validate_url'', validateURL lib),
      (''validate_regex'', validateRegex lib),
      (''min_length'', minLength lib),
      (''max_length'', maxLength lib),
      (''in_range'', inRange lib)]"

section \<open>The argument contract, on values\<close>

text \<open>The \<open>k\<close>-th argument of a call; nil when the call has fewer arguments.\<close>

definition arg :: "LValue list \<Rightarrow> nat \<Rightarrow> LValue" where
  "arg args k = (if 1 \<le> k \<and> k \<le> length args then args ! (k - 1) else LNil)"

text \<open>
  What a typed parameter takes from an argument, \<open>None\<close> when the argument is refused.
  A string parameter takes a string as it is and a number as its text; an integer
  parameter takes a number, converted to an \<^verbatim>\<open>int\<close>; a number parameter takes a number as
  it is and a string that reads as a number.
\<close>

definition string_arg :: "GoLib \<Rightarrow> LValue \<Rightarrow> string option" where
  "string_arg lib v =
     (case v of
        LString s \<Rightarrow> Some s
      | LNumber x \<Rightarrow> Some (LNumber_String lib x)
      | _ \<Rightarrow> None)"

definition int_arg :: "GoLib \<Rightarrow> LValue \<Rightarrow> int option" where
  "int_arg lib v = (case v of LNumber x \<Rightarrow> Some (int_of_float64 lib x) | _ \<Rightarrow> None)"

definition number_arg :: "GoLib \<Rightarrow> LValue \<Rightarrow> float64 option" where
  "number_arg lib v =
     (case v of
        LNumber x \<Rightarrow> Some x
      | LString t \<Rightarrow> parseNumber lib t
      | _ \<Rightarrow> None)"

text \<open>The integer part of a real number: the fraction is cut off, towards zero.\<close>

definition int_part :: "real \<Rightarrow> int" where
  "int_part r = (if 0 \<le> r then \<lfloor>r\<rfloor> else \<lceil>r\<rceil>)"

text \<open>
  On amd64 the conversion of a \<^verbatim>\<open>float64\<close> that does not fit an \<^verbatim>\<open>int64\<close> (the
  instruction \<^verbatim>\<open>CVTTSD2SQ\<close>) gives the least \<^verbatim>\<open>int64\<close>, whatever the operand.
\<close>

definition amd64_int_conv :: "float64 \<Rightarrow> 64 word" where
  "amd64_int_conv x = 0x8000000000000000"

section \<open>Calls with an argument\<close>

lemma call_CheckAny_1:
  "CheckAny \<lparr>stack = v # rest, Env = env\<rparr> 1 = Inr v"
  by (simp add: CheckAny_def GetTop_def Get_def)

lemma call_Push_1:
  "call (\<lambda>L. case CheckAny L 1 of Inl e \<Rightarrow> Inl e | Inr value \<Rightarrow> Inr (1, Push L (g value)))
     env (v # rest) = Inr ([g v], env)"
  unfolding call_def call_CheckAny_1 by (simp add: Push_def)

lemma call_isString:
  "call isString env (v # rest) =
     Inr ([LBool (case v of LString _ \<Rightarrow> True | _ \<Rightarrow> False)], env)"
  unfolding isString_def Let_def by (rule call_Push_1)

lemma call_isNumber:
  "call isNumber env (v # rest) =
     Inr ([LBool (case v of LNumber _ \<Rightarrow> True | _ \<Rightarrow> False)], env)"
  unfolding isNumber_def Let_def by (rule call_Push_1)

lemma call_isTable:
  "call isTable env (v # rest) =
     Inr ([LBool (case v of LTable _ \<Rightarrow> True | _ \<Rightarrow> False)], env)"
  unfolding isTable_def Let_def by (rule call_Push_1)

lemma call_isBoolean:
  "call isBoolean env (v # rest) =
     Inr ([LBool (case v of LBool _ \<Rightarrow> True | _ \<Rightarrow> False)], env)"
  unfolding isBoolean_def Let_def by (rule call_Push_1)

lemma call_isNil:
  "call isNil env (v # rest) = Inr ([LBool (v = LNil)], env)"
  unfolding isNil_def by (rule call_Push_1)

text \<open>The callback of \<open>isEmpty\<close> counts the entries: the count is the number of entries.\<close>

lemma ForEach_count:
  "ForEach tbl (\<lambda>_ _ c. c + 1) (n::int) = n + int (length tbl)"
  by (induction tbl arbitrary: n) auto

lemma call_isEmpty:
  "call isEmpty env (v # rest) =
     Inr ([LBool (v = LNil \<or> v = LString [] \<or> v = LTable [])], env)"
proof -
  have eq: "isEmpty =
      (\<lambda>L. case CheckAny L 1 of
             Inl e \<Rightarrow> Inl e
           | Inr value \<Rightarrow>
               Inr (1, Push L (LBool (value = LNil \<or> value = LString [] \<or> value = LTable []))))"
    unfolding isEmpty_def
    by (rule ext) (auto simp: ForEach_count Let_def split: sum.splits LValue.splits)
  show ?thesis unfolding eq by (rule call_Push_1)
qed

section \<open>Type classification\<close>

text \<open>
  Claim C1. For every script value \<open>v\<close> and every type tag T among string, number, table,
  boolean and nil, the classifier \<open>is_T(v)\<close> returns true if and only if the runtime type
  tag of \<open>v\<close> is exactly T. Nothing is coerced: \<open>is_number("42")\<close> and \<open>is_string(42)\<close>
  are false. Arguments after the first are ignored.
\<close>

theorem classifier_iff_type_tag:
  "call isString env (v # rest) = Inr ([LBool (Type v = LTString)], env)
   \<and> call isNumber env (v # rest) = Inr ([LBool (Type v = LTNumber)], env)
   \<and> call isTable env (v # rest) = Inr ([LBool (Type v = LTTable)], env)
   \<and> call isBoolean env (v # rest) = Inr ([LBool (Type v = LTBool)], env)
   \<and> call isNil env (v # rest) = Inr ([LBool (Type v = LTNil)], env)
   \<and> call isNumber env [LString ''42''] = Inr ([LBool False], env)
   \<and> call isString env [LNumber (Fin 42)] = Inr ([LBool False], env)"
  unfolding call_isString call_isNumber call_isTable call_isBoolean call_isNil
  by (cases v) simp_all

text \<open>
  Claim C10. The five classifiers are mutually exclusive: for every script value, at most
  one of \<open>is_string\<close>, \<open>is_number\<close>, \<open>is_table\<close>, \<open>is_boolean\<close> and \<open>is_nil\<close> returns
  true.
\<close>

theorem classifiers_mutually_exclusive:
  "length (filter (\<lambda>f. call f env [v] = Inr ([LBool True], env))
     [isString, isNumber, isTable, isBoolean, isNil]) \<le> 1"
  by (cases v) (simp_all add: call_isString call_isNumber call_isTable call_isBoolean call_isNil)



section \<open>Emptiness\<close>

text \<open>
  Claim C2. \<open>is_empty(v)\<close> returns true if and only if \<open>v\<close> is nil, or a string of
  byte-length zero, or a table whose enumeration visits no entry (the count of the
  enumeration is the number of entries, whatever their keys and values); for a value of
  any other type it returns false, also for the number 0 and the boolean false.
\<close>

theorem isEmpty_iff:
  "call isEmpty env (v # rest) =
     Inr ([LBool (case v of
                    LNil \<Rightarrow> True
                  | LString s \<Rightarrow> length s = 0
                  | LTable t \<Rightarrow> ForEach t (\<lambda>_ _ c. c + 1) (0::int) = 0
                  | _ \<Rightarrow> False)], env)
   \<and> ForEach t (\<lambda>_ _ c. c + 1) (0::int) = int (length t)
   \<and> call isEmpty env [LTable ((k, x) # t)] = Inr ([LBool False], env)
   \<and> call isEmpty env [LString ''x''] = Inr ([LBool False], env)
   \<and> call isEmpty env [LNumber (Fin 0)] = Inr ([LBool False], env)
   \<and> call isEmpty env [LBool False] = Inr ([LBool False], env)
   \<and> call isEmpty env [LFunction f] = Inr ([LBool False], env)"
  unfolding call_isEmpty ForEach_count
  by (cases v) simp_all

section \<open>Regular expressions\<close>

lemma call_validateRegex:
  "call (validateRegex lib) env (LString s # LString pattern # rest) =
     (case regexp_Compile lib pattern of
        Inl msg \<Rightarrow> Inr ([LBool False, LString msg], env)
      | Inr re \<Rightarrow> Inr ([LBool (regexp_MatchString lib re s)], env))"
  by (cases "regexp_Compile lib pattern")
    (simp_all add: call_def validateRegex_def CheckString_def Get_def GetTop_def Push_def)

text \<open>
  Claim C3. For every pair of strings, \<open>validate_regex(s, pattern)\<close> returns the boolean
  false (never nil) in the first slot and the compiler's message, which is not nil, in the
  second exactly when the pattern fails to compile; when it compiles, the first slot is
  the engine's answer to whether the pattern is found in \<open>s\<close> (\<^verbatim>\<open>MatchString\<close>, a search)
  and the second slot is absent. So the second slot is set if and only if the pattern is
  broken.
\<close>

theorem validateRegex_result:
  "\<exists>rs. call (validateRegex lib) env [LString s, LString pattern] = Inr (rs, env)
     \<and> (result_slot rs 1, result_slot rs 2) =
         (case regexp_Compile lib pattern of
            Inl msg \<Rightarrow> (LBool False, LString msg)
          | Inr re \<Rightarrow> (LBool (regexp_MatchString lib re s), LNil))
     \<and> (result_slot rs 2 = LNil) = (\<exists>re. regexp_Compile lib pattern = Inr re)
     \<and> result_slot rs 1 \<noteq> LNil"
  by (cases "regexp_Compile lib pattern") (simp_all add: call_validateRegex result_slot_def)

section \<open>Length and range\<close>

lemma int_of_float64_of_int:
  "- (2 ^ 63) \<le> i \<Longrightarrow> i < 2 ^ 63 \<Longrightarrow> int_of_float64 lib (Fin (of_int i)) = i"
  by (simp add: int_of_float64_def)

lemma call_minLength:
  "call (minLength lib) env (LString s # LNumber x # rest) =
     Inr ([LBool (int_of_float64 lib x \<le> int (length s))], env)"
  by (simp add: call_def minLength_def CheckString_def CheckInt_def Get_def GetTop_def Push_def)

lemma call_maxLength:
  "call (maxLength lib) env (LString s # LNumber x # rest) =
     Inr ([LBool (int (length s) \<le> int_of_float64 lib x)], env)"
  by (simp add: call_def maxLength_def CheckString_def CheckInt_def Get_def GetTop_def Push_def)

lemma sint_amd64_int_conv:
  "sint (amd64_int_conv x) = - (2 ^ 63)"
  by (simp add: amd64_int_conv_def)

lemma int_of_float64_out_of_range:
  "i < - (2 ^ 63) \<or> 2 ^ 63 \<le> i \<Longrightarrow>
     int_of_float64 lib (Fin (of_int i)) = sint (int_conv_overflow lib (Fin (of_int i)))"
  by (auto simp: int_of_float64_def)

text \<open>
  Claim C7, as amended. For every string \<open>s\<close> and every integer bound that a 64-bit Go
  \<^verbatim>\<open>int\<close> holds, \<open>min_length(s, min)\<close> returns true iff the byte-length of \<open>s\<close> is at least
  \<open>min\<close>, and \<open>max_length(s, max)\<close> returns true iff the byte-length of \<open>s\<close> is at most
  \<open>max\<close>; both comparisons are inclusive. For an integer bound outside that range the
  byte-length is compared, in the same way, with what the platform's conversion of the
  bound to \<^verbatim>\<open>int\<close> gives, not with the bound.
\<close>

theorem length_bounds_inclusive:
  "(- (2 ^ 63) \<le> i \<and> i < 2 ^ 63 \<longrightarrow>
      call (minLength lib) env [LString s, LNumber (Fin (of_int i))] =
        Inr ([LBool (i \<le> int (length s))], env)
      \<and> call (maxLength lib) env [LString s, LNumber (Fin (of_int i))] =
        Inr ([LBool (int (length s) \<le> i)], env))
   \<and> (i < - (2 ^ 63) \<or> 2 ^ 63 \<le> i \<longrightarrow>
      call (minLength lib) env [LString s, LNumber (Fin (of_int i))] =
        Inr ([LBool (sint (int_conv_overflow lib (Fin (of_int i))) \<le> int (length s))], env)
      \<and> call (maxLength lib) env [LString s, LNumber (Fin (of_int i))] =
        Inr ([LBool (int (length s) \<le> sint (int_conv_overflow lib (Fin (of_int i))))], env))"
  by (simp add: call_minLength call_maxLength int_of_float64_of_int
      int_of_float64_out_of_range)

theorem length_bounds_inclusive_witness:
  "\<forall>lib env.
     call (minLength lib) env [LString ''abc'', LNumber (Fin 3)] = Inr ([LBool True], env)
     \<and> call (maxLength lib) env [LString ''abc'', LNumber (Fin 3)] = Inr ([LBool True], env)
     \<and> call (minLength lib) env [LString ''hi'', LNumber (Fin 3)] = Inr ([LBool False], env)
     \<and> call (maxLength lib) env [LString ''hello'', LNumber (Fin 3)] = Inr ([LBool False], env)
     \<and> call (minLength lib) env [LString [CHR 0xC3, CHR 0xA9], LNumber (Fin 2)]
         = Inr ([LBool True], env)
     \<and> call (minLength (lib\<lparr>int_conv_overflow := amd64_int_conv\<rparr>)) env
          [LString ''abc'', LNumber (Fin (2 ^ 63))] = Inr ([LBool True], env)"
proof (intro allI conjI)
  fix lib :: GoLib and env :: "string \<rightharpoonup> LValue"
  show "call (minLength lib) env [LString ''abc'', LNumber (Fin 3)] = Inr ([LBool True], env)"
    using length_bounds_inclusive [of 3 lib env "''abc''"] by simp
  show "call (maxLength lib) env [LString ''abc'', LNumber (Fin 3)] = Inr ([LBool True], env)"
    using length_bounds_inclusive [of 3 lib env "''abc''"] by simp
  show "call (minLength lib) env [LString ''hi'', LNumber (Fin 3)] = Inr ([LBool False], env)"
    using length_bounds_inclusive [of 3 lib env "''hi''"] by simp
  show "call (maxLength lib) env [LString ''hello'', LNumber (Fin 3)] =
      Inr ([LBool False], env)"
    using length_bounds_inclusive [of 3 lib env "''hello''"] by simp
  show "call (minLength lib) env [LString [CHR 0xC3, CHR 0xA9], LNumber (Fin 2)] =
      Inr ([LBool True], env)"
    using length_bounds_inclusive [of 2 lib env "[CHR 0xC3, CHR 0xA9]"] by simp
  show "call (minLength (lib\<lparr>int_conv_overflow := amd64_int_conv\<rparr>)) env
      [LString ''abc'', LNumber (Fin (2 ^ 63))] = Inr ([LBool True], env)"
    using length_bounds_inclusive
      [of "2 ^ 63" "lib\<lparr>int_conv_overflow := amd64_int_conv\<rparr>" env "''abc''"]
    by (simp add: sint_amd64_int_conv)
qed

text \<open>
  Claim C7 as stated fails: the byte-length of \<^verbatim>\<open>abc\<close> is at most the integer \<open>2^63\<close>, and
  on amd64 \<open>max_length("abc", 2^63)\<close> returns false.
\<close>

theorem length_bound_out_of_range:
  "\<forall>lib env.
     call (maxLength (lib\<lparr>int_conv_overflow := amd64_int_conv\<rparr>)) env
       [LString ''abc'', LNumber (Fin (2 ^ 63))] = Inr ([LBool False], env)"
  by (simp add: call_maxLength int_of_float64_def sint_amd64_int_conv)

lemma call_inRange:
  "call (inRange lib) env (LNumber n # LNumber lo # LNumber hi # rest) =
     Inr ([LBool (f64_ge n lo \<and> f64_le n hi)], env)"
  by (simp add: call_def inRange_def CheckNumber_def Get_def GetTop_def Push_def)

text \<open>
  Claim C8. For all numbers \<open>n\<close>, \<open>min\<close>, \<open>max\<close>, \<open>in_range(n, min, max)\<close> returns true if
  and only if \<open>min \<le> n\<close> and \<open>n \<le> max\<close> in the comparison of floating-point numbers,
  inclusive on both ends: on finite numbers this is the order of the reals, and a
  not-a-number in any place gives false. \<open>in_range(1, 1, 10)\<close> and \<open>in_range(10, 1, 10)\<close>
  are true.
\<close>

theorem inRange_inclusive:
  "call (inRange lib) env [LNumber n, LNumber lo, LNumber hi] =
     Inr ([LBool (f64_le lo n \<and> f64_le n hi)], env)
   \<and> call (inRange lib) env [LNumber (Fin x), LNumber (Fin a), LNumber (Fin b)] =
     Inr ([LBool (a \<le> x \<and> x \<le> b)], env)
   \<and> call (inRange lib) env [LNumber NaN, LNumber lo, LNumber hi] = Inr ([LBool False], env)
   \<and> call (inRange lib) env [LNumber n, LNumber NaN, LNumber hi] = Inr ([LBool False], env)
   \<and> call (inRange lib) env [LNumber n, LNumber lo, LNumber NaN] = Inr ([LBool False], env)
   \<and> call (inRange lib) env [LNumber (Fin 1), LNumber (Fin 1), LNumber (Fin 10)] =
     Inr ([LBool True], env)
   \<and> call (inRange lib) env [LNumber (Fin 10), LNumber (Fin 1), LNumber (Fin 10)] =
     Inr ([LBool True], env)
   \<and> call (inRange lib) env [LNumber (Fin 0), LNumber (Fin 1), LNumber (Fin 10)] =
     Inr ([LBool False], env)"
  unfolding call_inRange f64_ge_def
  by (cases n; cases lo; cases hi) simp_all

section \<open>The environment is neither read nor written\<close>

lemma Get_Env:
  "Get (L\<lparr>Env := e\<rparr>) n = Get L n"
  by (simp add: Get_def GetTop_def)

lemma CheckAny_Env:
  "CheckAny (L\<lparr>Env := e\<rparr>) n = CheckAny L n"
  by (simp add: CheckAny_def GetTop_def Get_Env)

lemma CheckString_Env:
  "CheckString lib (L\<lparr>Env := e\<rparr>) n = CheckString lib L n"
  by (simp add: CheckString_def Get_Env)

lemma CheckInt_Env:
  "CheckInt lib (L\<lparr>Env := e\<rparr>) n = CheckInt lib L n"
  by (simp add: CheckInt_def Get_Env)

lemma CheckNumber_Env:
  "CheckNumber lib (L\<lparr>Env := e\<rparr>) n = CheckNumber lib L n"
  by (simp add: CheckNumber_def Get_Env)

lemma Push_Env:
  "Push (L\<lparr>Env := e\<rparr>) v = (Push L v)\<lparr>Env := e\<rparr>"
  by (simp add: Push_def)

lemmas Env_simps =
  CheckAny_Env CheckString_Env CheckInt_Env CheckNumber_Env Push_Env

text \<open>
  A function commutes with a change of the environment when its outcome on the changed
  state is its outcome on the unchanged one, with the new environment passed through.
\<close>

lemma isEmpty_Env:
  "isEmpty (L\<lparr>Env := e\<rparr>) = map_sum id (\<lambda>(n, L'). (n, L'\<lparr>Env := e\<rparr>)) (isEmpty L)"
  by (simp add: isEmpty_def Env_simps Let_def split: sum.splits LValue.splits)

lemma isString_Env:
  "isString (L\<lparr>Env := e\<rparr>) = map_sum id (\<lambda>(n, L'). (n, L'\<lparr>Env := e\<rparr>)) (isString L)"
  by (simp add: isString_def Env_simps Let_def split: sum.splits)

lemma isNumber_Env:
  "isNumber (L\<lparr>Env := e\<rparr>) = map_sum id (\<lambda>(n, L'). (n, L'\<lparr>Env := e\<rparr>)) (isNumber L)"
  by (simp add: isNumber_def Env_simps Let_def split: sum.splits)

lemma isTable_Env:
  "isTable (L\<lparr>Env := e\<rparr>) = map_sum id (\<lambda>(n, L'). (n, L'\<lparr>Env := e\<rparr>)) (isTable L)"
  by (simp add: isTable_def Env_simps Let_def split: sum.splits)

lemma isBoolean_Env:
  "isBoolean (L\<lparr>Env := e\<rparr>) = map_sum id (\<lambda>(n, L'). (n, L'\<lparr>Env := e\<rparr>)) (isBoolean L)"
  by (simp add: isBoolean_def Env_simps Let_def split: sum.splits)

lemma isNil_Env:
  "isNil (L\<lparr>Env := e\<rparr>) = map_sum id (\<lambda>(n, L'). (n, L'\<lparr>Env := e\<rparr>)) (isNil L)"
  by (simp add: isNil_def Env_simps split: sum.splits)

lemma validateEmail_Env:
  "validateEmail lib (L\<lparr>Env := e\<rparr>) =
     map_sum id (\<lambda>(n, L'). (n, L'\<lparr>Env := e\<rparr>)) (validateEmail lib L)"
  by (simp add: validateEmail_def Env_simps Let_def split: sum.splits)

lemma validateURL_Env:
  "validateURL lib (L\<lparr>Env := e\<rparr>) =
     map_sum id (\<lambda>(n, L'). (n, L'\<lparr>Env := e\<rparr>)) (validateURL lib L)"
  by (simp add: validateURL_def Env_simps Let_def split: sum.splits)

lemma validateRegex_Env:
  "validateRegex lib (L\<lparr>Env := e\<rparr>) =
     map_sum id (\<lambda>(n, L'). (n, L'\<lparr>Env := e\<rparr>)) (validateRegex lib L)"
  by (simp add: validateRegex_def Env_simps split: sum.splits)

lemma minLength_Env:
  "minLength lib (L\<lparr>Env := e\<rparr>) =
     map_sum id (\<lambda>(n, L'). (n, L'\<lparr>Env := e\<rparr>)) (minLength lib L)"
  by (simp add: minLength_def Env_simps split: sum.splits)

lemma maxLength_Env:
  "maxLength lib (L\<lparr>Env := e\<rparr>) =
     map_sum id (\<lambda>(n, L'). (n, L'\<lparr>Env := e\<rparr>)) (maxLength lib L)"
  by (simp add: maxLength_def Env_simps split: sum.splits)

lemma inRange_Env:
  "inRange lib (L\<lparr>Env := e\<rparr>) =
     map_sum id (\<lambda>(n, L'). (n, L'\<lparr>Env := e\<rparr>)) (inRange lib L)"
  by (simp add: inRange_def Env_simps split: sum.splits)

text \<open>
  Such a function, called from a script, gives results that are a function of the
  arguments only, and gives the environment back as it was.
\<close>

lemma call_function_of_args:
  assumes "\<And>L e. f (L\<lparr>Env := e\<rparr>) = map_sum id (\<lambda>(n, L'). (n, L'\<lparr>Env := e\<rparr>)) (f L)"
  shows "\<exists>g. \<forall>env args.
           call f env args = (case g args of Inl e \<Rightarrow> Inl e | Inr rs \<Rightarrow> Inr (rs, env))"
proof (intro exI allI)
  fix env :: "string \<rightharpoonup> LValue" and args :: "LValue list"
  let ?g = "\<lambda>args. map_sum id fst (call f Map.empty args)"
  have "f \<lparr>stack = args, Env = env\<rparr> = f (\<lparr>stack = args, Env = Map.empty\<rparr>\<lparr>Env := env\<rparr>)"
    by simp
  also have "\<dots> = map_sum id (\<lambda>(n, L'). (n, L'\<lparr>Env := env\<rparr>)) (f \<lparr>stack = args, Env = Map.empty\<rparr>)"
    by (rule assms)
  finally show "call f env args =
      (case ?g args of Inl e \<Rightarrow> Inl e | Inr rs \<Rightarrow> Inr (rs, env))"
    by (simp add: call_def split: sum.splits prod.splits)
qed

text \<open>
  Claim C9. Every exported function is deterministic and stateless: the outcome of a call
  (the values returned, or the error raised) is a function of the arguments of the call
  alone, so two calls with identical arguments return identical results whatever happened
  in between, and the state that outlives the call is left as it was found. The
  collaborators are functions of their arguments.
\<close>

theorem exports_stateless:
  "map fst (exports lib) =
     [''is_empty'', ''is_string'', ''is_number'', ''is_table'', ''is_boolean'', ''is_nil'',
      ''validate_email'', ''validate_url'', ''validate_regex'', ''min_length'',
      ''max_length'', ''in_range'']
   \<and> list_all
        (\<lambda>f. \<exists>g. \<forall>env args.
           call f env args = (case g args of Inl e \<Rightarrow> Inl e | Inr rs \<Rightarrow> Inr (rs, env)))
        (map snd (exports lib))"
  unfolding exports_def list.map fst_conv snd_conv list.pred_inject
  by (intro conjI refl call_function_of_args
      isEmpty_Env isString_Env isNumber_Env isTable_Env isBoolean_Env isNil_Env
      validateEmail_Env validateURL_Env validateRegex_Env minLength_Env maxLength_Env
      inRange_Env) simp

section \<open>Arguments of the wrong type\<close>

lemmas frame_defs = call_def Get_def GetTop_def Push_def

lemma Get_arg:
  "Get \<lparr>stack = args, Env = env\<rparr> k = arg args k"
  by (simp add: Get_def GetTop_def arg_def)

lemma CheckString_arg:
  "CheckString lib \<lparr>stack = args, Env = env\<rparr> k =
     (case string_arg lib (arg args k) of
        None \<Rightarrow> Inl (TypeError k LTString (Type (arg args k)))
      | Some s \<Rightarrow> Inr s)"
  unfolding CheckString_def Get_arg string_arg_def by (cases "arg args k") simp_all

lemma CheckInt_arg:
  "CheckInt lib \<lparr>stack = args, Env = env\<rparr> k =
     (case int_arg lib (arg args k) of
        None \<Rightarrow> Inl (TypeError k LTNumber (Type (arg args k)))
      | Some i \<Rightarrow> Inr i)"
  unfolding CheckInt_def Get_arg int_arg_def by (cases "arg args k") simp_all

lemma CheckNumber_arg:
  "CheckNumber lib \<lparr>stack = args, Env = env\<rparr> k =
     (case number_arg lib (arg args k) of
        None \<Rightarrow> Inl (TypeError k LTNumber (Type (arg args k)))
      | Some x \<Rightarrow> Inr x)"
  unfolding CheckNumber_def Get_arg number_arg_def
  by (cases "arg args k") (simp_all split: option.splits)

lemma call_validateEmail_args:
  "call (validateEmail lib) env args =
     (case string_arg lib (arg args 1) of
        None \<Rightarrow> Inl (TypeError 1 LTString (Type (arg args 1)))
      | Some email \<Rightarrow> Inr ([LBool (mail_ParseAddress lib email = None)], env))"
  unfolding call_def validateEmail_def CheckString_arg
  by (simp add: Push_def split: option.splits)

lemma call_validateURL_args:
  "call (validateURL lib) env args =
     (case string_arg lib (arg args 1) of
        None \<Rightarrow> Inl (TypeError 1 LTString (Type (arg args 1)))
      | Some urlStr \<Rightarrow> Inr ([LBool (ParseRequestURI lib urlStr = None)], env))"
  unfolding call_def validateURL_def CheckString_arg
  by (simp add: Push_def split: option.splits)

lemma call_validateRegex_args:
  "call (validateRegex lib) env args =
     (case string_arg lib (arg args 1) of
        None \<Rightarrow> Inl (TypeError 1 LTString (Type (arg args 1)))
      | Some str \<Rightarrow>
          (case string_arg lib (arg args 2) of
             None \<Rightarrow> Inl (TypeError 2 LTString (Type (arg args 2)))
           | Some pattern \<Rightarrow>
               (case regexp_Compile lib pattern of
                  Inl msg \<Rightarrow> Inr ([LBool False, LString msg], env)
                | Inr re \<Rightarrow> Inr ([LBool (regexp_MatchString lib re str)], env))))"
  unfolding call_def validateRegex_def CheckString_arg
  by (simp add: Push_def split: option.splits sum.splits)

lemma call_minLength_args:
  "call (minLength lib) env args =
     (case string_arg lib (arg args 1) of
        None \<Rightarrow> Inl (TypeError 1 LTString (Type (arg args 1)))
      | Some str \<Rightarrow>
          (case int_arg lib (arg args 2) of
             None \<Rightarrow> Inl (TypeError 2 LTNumber (Type (arg args 2)))
           | Some minv \<Rightarrow> Inr ([LBool (minv \<le> int (length str))], env)))"
  unfolding call_def minLength_def CheckString_arg CheckInt_arg
  by (simp add: Push_def split: option.splits)

lemma call_maxLength_args:
  "call (maxLength lib) env args =
     (case string_arg lib (arg args 1) of
        None \<Rightarrow> Inl (TypeError 1 LTString (Type (arg args 1)))
      | Some str \<Rightarrow>
          (case int_arg lib (arg args 2) of
             None \<Rightarrow> Inl (TypeError 2 LTNumber (Type (arg args 2)))
           | Some maxv \<Rightarrow> Inr ([LBool (int (length str) \<le> maxv)], env)))"
  unfolding call_def maxLength_def CheckString_arg CheckInt_arg
  by (simp add: Push_def split: option.splits)

lemma call_inRange_args:
  "call (inRange lib) env args =
     (case number_arg lib (arg args 1) of
        None \<Rightarrow> Inl (TypeError 1 LTNumber (Type (arg args 1)))
      | Some num \<Rightarrow>
          (case number_arg lib (arg args 2) of
             None \<Rightarrow> Inl (TypeError 2 LTNumber (Type (arg args 2)))
           | Some minv \<Rightarrow>
               (case number_arg lib (arg args 3) of
                  None \<Rightarrow> Inl (TypeError 3 LTNumber (Type (arg args 3)))
                | Some maxv \<Rightarrow> Inr ([LBool (f64_le minv num \<and> f64_le num maxv)], env))))"
  unfolding call_def inRange_def CheckNumber_arg
  by (simp add: Push_def f64_ge_def split: option.splits)

lemma string_arg_None:
  "(string_arg lib v = None) = (Type v \<noteq> LTString \<and> Type v \<noteq> LTNumber)"
  by (cases v) (simp_all add: string_arg_def)

lemma int_arg_None:
  "(int_arg lib v = None) = (Type v \<noteq> LTNumber)"
  by (cases v) (simp_all add: int_arg_def)

lemma number_arg_None:
  "(number_arg lib v = None) =
     (case v of LNumber x \<Rightarrow> False | LString t \<Rightarrow> parseNumber lib t = None | _ \<Rightarrow> True)"
  by (cases v) (simp_all add: number_arg_def)

lemma int_of_float64_int_part:
  "- (2 ^ 63) \<le> int_part r \<Longrightarrow> int_part r < 2 ^ 63 \<Longrightarrow> int_of_float64 lib (Fin r) = int_part r"
  by (simp add: int_of_float64_def int_part_def Let_def)

text \<open>
  Claim C4, as amended. In a call to \<open>validate_email\<close>, \<open>validate_url\<close>,
  \<open>validate_regex\<close>, \<open>min_length\<close>, \<open>max_length\<close> or \<open>in_range\<close> the typed arguments are
  checked in order, a missing argument being nil. The call aborts at the first argument
  that its parameter refuses, with a type error that names the argument, and returns no
  validation result; when no argument is refused it returns the validation result of the
  values the parameters take. A string parameter refuses everything but a string and a
  number, and takes a number as its text. The integer bound of \<open>min_length\<close> and
  \<open>max_length\<close> refuses everything but a number; it never refuses a number, and takes the
  integer part of a finite number when a 64-bit \<^verbatim>\<open>int\<close> holds it. A number parameter of
  \<open>in_range\<close> refuses everything but a number and a string that reads as a number, and
  takes the number read.
\<close>

theorem validators_abort_on_wrong_type:
  "call (validateEmail lib) env args =
     (case string_arg lib (arg args 1) of
        None \<Rightarrow> Inl (TypeError 1 LTString (Type (arg args 1)))
      | Some email \<Rightarrow> Inr ([LBool (mail_ParseAddress lib email = None)], env))
   \<and> call (validateURL lib) env args =
     (case string_arg lib (arg args 1) of
        None \<Rightarrow> Inl (TypeError 1 LTString (Type (arg args 1)))
      | Some urlStr \<Rightarrow> Inr ([LBool (ParseRequestURI lib urlStr = None)], env))
   \<and> call (validateRegex lib) env args =
     (case string_arg lib (arg args 1) of
        None \<Rightarrow> Inl (TypeError 1 LTString (Type (arg args 1)))
      | Some str \<Rightarrow>
          (case string_arg lib (arg args 2) of
             None \<Rightarrow> Inl (TypeError 2 LTString (Type (arg args 2)))
           | Some pattern \<Rightarrow>
               (case regexp_Compile lib pattern of
                  Inl msg \<Rightarrow> Inr ([LBool False, LString msg], env)
                | Inr re \<Rightarrow> Inr ([LBool (regexp_MatchString lib re str)], env))))
   \<and> call (minLength lib) env args =
     (case string_arg lib (arg args 1) of
        None \<Rightarrow> Inl (TypeError 1 LTString (Type (arg args 1)))
      | Some str \<Rightarrow>
          (case int_arg lib (arg args 2) of
             None \<Rightarrow> Inl (TypeError 2 LTNumber (Type (arg args 2)))
           | Some minv \<Rightarrow> Inr ([LBool (minv \<le> int (length str))], env)))
   \<and> call (maxLength lib) env args =
     (case string_arg lib (arg args 1) of
        None \<Rightarrow> Inl (TypeError 1 LTString (Type (arg args 1)))
      | Some str \<Rightarrow>
          (case int_arg lib (arg args 2) of
             None \<Rightarrow> Inl (TypeError 2 LTNumber (Type (arg args 2)))
           | Some maxv \<Rightarrow> Inr ([LBool (int (length str) \<le> maxv)], env)))
   \<and> call (inRange lib) env args =
     (case number_arg lib (arg args 1) of
        None \<Rightarrow> Inl (TypeError 1 LTNumber (Type (arg args 1)))
      | Some num \<Rightarrow>
          (case number_arg lib (arg args 2) of
             None \<Rightarrow> Inl (TypeError 2 LTNumber (Type (arg args 2)))
           | Some minv \<Rightarrow>
               (case number_arg lib (arg args 3) of
                  None \<Rightarrow> Inl (TypeError 3 LTNumber (Type (arg args 3)))
                | Some maxv \<Rightarrow> Inr ([LBool (f64_le minv num \<and> f64_le num maxv)], env))))
   \<and> (length args < k \<longrightarrow> arg args k = LNil)
   \<and> (1 \<le> k \<and> k \<le> length args \<longrightarrow> arg args k = args ! (k - 1))
   \<and> (string_arg lib v = None) = (Type v \<noteq> LTString \<and> Type v \<noteq> LTNumber)
   \<and> string_arg lib (LString s) = Some s
   \<and> string_arg lib (LNumber x) = Some (LNumber_String lib x)
   \<and> (int_arg lib v = None) = (Type v \<noteq> LTNumber)
   \<and> int_arg lib (LNumber x) = Some (int_of_float64 lib x)
   \<and> (- (2 ^ 63) \<le> int_part r \<and> int_part r < 2 ^ 63 \<longrightarrow>
        int_of_float64 lib (Fin r) = int_part r)
   \<and> (number_arg lib v = None) =
        (case v of LNumber y \<Rightarrow> False | LString t \<Rightarrow> parseNumber lib t = None | _ \<Rightarrow> True)
   \<and> number_arg lib (LNumber x) = Some x
   \<and> number_arg lib (LString s) = parseNumber lib s"
proof -
  have a1: "length args < k \<longrightarrow> arg args k = LNil"
    by (simp add: arg_def)
  have a2: "1 \<le> k \<and> k \<le> length args \<longrightarrow> arg args k = args ! (k - 1)"
    by (simp add: arg_def)
  have t: "- (2 ^ 63) \<le> int_part r \<and> int_part r < 2 ^ 63 \<longrightarrow>
      int_of_float64 lib (Fin r) = int_part r"
    by (simp add: int_of_float64_int_part)
  have s1: "string_arg lib (LString s) = Some s"
    and s2: "string_arg lib (LNumber x) = Some (LNumber_String lib x)"
    by (simp_all add: string_arg_def)
  have i1: "int_arg lib (LNumber x) = Some (int_of_float64 lib x)"
    by (simp add: int_arg_def)
  have n1: "number_arg lib (LNumber x) = Some x"
    and n2: "number_arg lib (LString s) = parseNumber lib s"
    by (simp_all add: number_arg_def)
  show ?thesis
    by (intro conjI call_validateEmail_args call_validateURL_args call_validateRegex_args
        call_minLength_args call_maxLength_args call_inRange_args a1 a2 string_arg_None s1 s2
        int_arg_None i1 t number_arg_None n1 n2)
qed

theorem validators_abort_on_wrong_type_witness:
  "\<forall>lib env.
     call (validateEmail lib) env [] = Inl (TypeError 1 LTString LTNil)
     \<and> call (validateURL lib) env [LTable []] = Inl (TypeError 1 LTString LTTable)
     \<and> call (validateRegex lib) env [LNumber (Fin 1), LBool True] =
         Inl (TypeError 2 LTString LTBool)
     \<and> call (minLength lib) env [LString ''ab'', LNumber (Fin (5 / 2))] =
         Inr ([LBool True], env)
     \<and> call (maxLength lib) env [LString ''abc'', LNumber (Fin (5 / 2))] =
         Inr ([LBool False], env)
     \<and> call (maxLength lib) env [LString ''abc'', LNumber (Fin (- 5 / 2))] =
         Inr ([LBool False], env)
     \<and> call (maxLength lib) env [LString ''abc'', LString ''3''] =
         Inl (TypeError 2 LTNumber LTString)
     \<and> call (minLength lib) env [LString ''abc''] = Inl (TypeError 2 LTNumber LTNil)
     \<and> call (inRange lib) env [LNumber (Fin 5), LNumber (Fin 1), LFunction 0] =
         Inl (TypeError 3 LTNumber LTFunction)
     \<and> call (inRange lib) env [LNumber (Fin 5), LNumber (Fin 1)] =
         Inl (TypeError 3 LTNumber LTNil)"
proof (intro allI conjI)
  fix lib :: GoLib and env :: "string \<rightharpoonup> LValue"
  note ev = arg_def string_arg_def int_arg_def number_arg_def
  have p: "int_part (5 / 2) = 2" and q: "int_part (- 5 / 2) = - 2"
    by (simp_all add: int_part_def)
  show "call (validateEmail lib) env [] = Inl (TypeError 1 LTString LTNil)"
    using validators_abort_on_wrong_type [where lib = lib and env = env and args = "[]"
        and k = 1]
    by (simp add: ev)
  show "call (validateURL lib) env [LTable []] = Inl (TypeError 1 LTString LTTable)"
    using validators_abort_on_wrong_type [where lib = lib and env = env
        and args = "[LTable []]" and k = 1 and v = "LTable []"]
    by (simp add: ev)
  show "call (validateRegex lib) env [LNumber (Fin 1), LBool True] =
      Inl (TypeError 2 LTString LTBool)"
    using validators_abort_on_wrong_type [where lib = lib and env = env
        and args = "[LNumber (Fin 1), LBool True]" and k = 2 and v = "LBool True"]
    by (simp add: ev)
  show "call (minLength lib) env [LString ''ab'', LNumber (Fin (5 / 2))] =
      Inr ([LBool True], env)"
    using validators_abort_on_wrong_type [where lib = lib and env = env
        and args = "[LString ''ab'', LNumber (Fin (5 / 2))]" and r = "5 / 2"] p
    by (simp add: ev)
  show "call (maxLength lib) env [LString ''abc'', LNumber (Fin (5 / 2))] =
      Inr ([LBool False], env)"
    using validators_abort_on_wrong_type [where lib = lib and env = env
        and args = "[LString ''abc'', LNumber (Fin (5 / 2))]" and r = "5 / 2"] p
    by (simp add: ev)
  show "call (maxLength lib) env [LString ''abc'', LNumber (Fin (- 5 / 2))] =
      Inr ([LBool False], env)"
    using validators_abort_on_wrong_type [where lib = lib and env = env
        and args = "[LString ''abc'', LNumber (Fin (- 5 / 2))]" and r = "- 5 / 2"] q
    by (simp add: ev)
  show "call (maxLength lib) env [LString ''abc'', LString ''3''] =
      Inl (TypeError 2 LTNumber LTString)"
    using validators_abort_on_wrong_type [where lib = lib and env = env
        and args = "[LString ''abc'', LString ''3'']" and v = "LString ''3''"]
    by (simp add: ev)
  show "call (minLength lib) env [LString ''abc''] = Inl (TypeError 2 LTNumber LTNil)"
    using validators_abort_on_wrong_type [where lib = lib and env = env
        and args = "[LString ''abc'']" and k = 2]
    by (simp add: ev)
  show "call (inRange lib) env [LNumber (Fin 5), LNumber (Fin 1), LFunction 0] =
      Inl (TypeError 3 LTNumber LTFunction)"
    using validators_abort_on_wrong_type [where lib = lib and env = env
        and args = "[LNumber (Fin 5), LNumber (Fin 1), LFunction 0]" and v = "LFunction 0"]
    by (simp add: ev)
  show "call (inRange lib) env [LNumber (Fin 5), LNumber (Fin 1)] =
      Inl (TypeError 3 LTNumber LTNil)"
    using validators_abort_on_wrong_type [where lib = lib and env = env
        and args = "[LNumber (Fin 5), LNumber (Fin 1)]" and k = 3]
    by (simp add: ev)
qed

text \<open>
  Claim C4 as stated fails: \<open>max_length(5, -1)\<close> has a number where a string is declared,
  and the call does not abort. It returns false, a validation result.
\<close>

theorem wrong_type_returns_validation_result:
  "\<forall>lib env.
     call (maxLength lib) env [LNumber (Fin 5), LNumber (Fin (- 1))] = Inr ([LBool False], env)"
  by (simp add: maxLength_def CheckString_def CheckInt_def int_of_float64_def frame_defs
      ceiling_minus)

section \<open>URLs\<close>











end
